theory Spec2Isabelle
  imports Complex_Main "HOL-Library.Char_ord"
begin

section \<open>Python strings\<close>


definition isspace :: "char \<Rightarrow> bool" where
  "isspace c = ((CHR 0x09 \<le> c \<and> c \<le> CHR 0x0D) \<or> (CHR 0x1C \<le> c \<and> c \<le> CHR 0x20))"

definition isupper :: "char \<Rightarrow> bool" where
  "isupper c = (CHR ''A'' \<le> c \<and> c \<le> CHR ''Z'')"

definition islower :: "char \<Rightarrow> bool" where
  "islower c = (CHR ''a'' \<le> c \<and> c \<le> CHR ''z'')"

definition isalpha :: "char \<Rightarrow> bool" where
  "isalpha c = (islower c \<or> isupper c)"

definition isdigit :: "char \<Rightarrow> bool" where
  "isdigit c = (CHR ''0'' \<le> c \<and> c \<le> CHR ''9'')"

text \<open>The class \<^verbatim>\<open>\w\<close> of the \<^verbatim>\<open>re\<close> module, which decides where \<^verbatim>\<open>\b\<close> matches.\<close>

definition isword :: "char \<Rightarrow> bool" where
  "isword c = (isalpha c \<or> isdigit c \<or> c = CHR ''_'')"

text \<open>In ASCII an upper-case letter and its lower-case letter differ in bit 5 only.\<close>

definition char_lower :: "char \<Rightarrow> char" where
  "char_lower c =
     (if isupper c
      then Char (digit0 c) (digit1 c) (digit2 c) (digit3 c) (digit4 c) True (digit6 c) (digit7 c)
      else c)"

definition char_upper :: "char \<Rightarrow> char" where
  "char_upper c =
     (if islower c
      then Char (digit0 c) (digit1 c) (digit2 c) (digit3 c) (digit4 c) False (digit6 c) (digit7 c)
      else c)"

text \<open>\<^verbatim>\<open>s.lower()\<close>\<close>

definition str_lower :: "string \<Rightarrow> string" where
  "str_lower s = map char_lower s"

text \<open>\<^verbatim>\<open>s.strip()\<close>: leading and trailing whitespace removed.\<close>

definition str_strip :: "string \<Rightarrow> string" where
  "str_strip s = rev (dropWhile isspace (rev (dropWhile isspace s)))"

text \<open>
  \<^verbatim>\<open>s.title()\<close>: a letter that follows a letter is lower-cased, any other letter is
  upper-cased; the flag is CPython's \<^verbatim>\<open>previous_is_cased\<close>.
\<close>

fun title_from :: "bool \<Rightarrow> string \<Rightarrow> string" where
  "title_from previous_is_cased [] = []"
| "title_from previous_is_cased (c # cs) =
     (if islower c then
        (if previous_is_cased then c else char_upper c) # title_from True cs
      else if isupper c then
        (if previous_is_cased then char_lower c else c) # title_from True cs
      else c # title_from False cs)"

definition str_title :: "string \<Rightarrow> string" where
  "str_title s = title_from False s"

text \<open>
  \<^verbatim>\<open>s.split()\<close> with no separator: skip whitespace, take characters up to the next
  whitespace, repeat; an empty or all-whitespace string gives the empty list.
\<close>

function str_split :: "string \<Rightarrow> string list" where
  "str_split s =
     (case dropWhile isspace s of
        [] \<Rightarrow> []
      | c # cs \<Rightarrow> (c # takeWhile (\<lambda>x. \<not> isspace x) cs) # str_split (dropWhile (\<lambda>x. \<not> isspace x) cs))"
  by pat_completeness auto
termination
proof (relation "measure length")
  show "wf (measure length)" by simp
next
  fix s :: string and c cs
  assume a: "dropWhile isspace s = c # cs"
  have "length (dropWhile (\<lambda>x. \<not> isspace x) cs) \<le> length cs"
    by (rule length_dropWhile_le)
  moreover have "length (c # cs) \<le> length s"
    using length_dropWhile_le [of isspace s] a by simp
  ultimately show "(dropWhile (\<lambda>x. \<not> isspace x) cs, s) \<in> measure length"
    by simp
qed

declare str_split.simps [simp del]

text \<open>\<^verbatim>\<open>sep.join(xs)\<close>\<close>

fun str_join :: "string \<Rightarrow> string list \<Rightarrow> string" where
  "str_join sep [] = []"
| "str_join sep [x] = x"
| "str_join sep (x # y # ys) = x @ sep @ str_join sep (y # ys)"

section \<open>The regular expression of the word analysis\<close>

text \<open>
  \<^verbatim>\<open>re.findall(r'\b[a-zA-Z]{3,}\b', text)\<close> scans the text from the left. The flag says
  whether the character before the current position is a word character. A match starts at a
  letter that follows no word character (the first \<^verbatim>\<open>\b\<close>), takes the whole run of letters
  (the quantifier is greedy), and needs at least three letters and no word character after the
  run (the second \<^verbatim>\<open>\b\<close>; giving letters back cannot help, since a letter follows then). After
  a match the scan goes on behind it; otherwise it moves one character on.
\<close>

function findall_words :: "bool \<Rightarrow> string \<Rightarrow> string list" where
  "findall_words prev [] = []"
| "findall_words prev (c # cs) =
     (if \<not> prev \<and> isalpha c then
        (let run = c # takeWhile isalpha cs; rest = dropWhile isalpha cs in
         if 3 \<le> length run \<and> (case rest of [] \<Rightarrow> True | d # _ \<Rightarrow> \<not> isword d)
         then run # findall_words True rest
         else findall_words True cs)
      else findall_words (isword c) cs)"
  by pat_completeness auto
termination
proof (relation "measure (\<lambda>(prev, s). length s)")
  show "wf (measure (\<lambda>(prev :: bool, s :: string). length s))" by simp
next
  fix prev :: bool and c :: char and cs x xa
  assume "xa = dropWhile isalpha cs"
  then show "((True, xa), prev, c # cs) \<in> measure (\<lambda>(prev, s). length s)"
    using length_dropWhile_le [of isalpha cs] by simp
qed simp_all

declare findall_words.simps(2) [simp del]

section \<open>Counting and ranking\<close>

text \<open>
  \<^verbatim>\<open>collections.Counter\<close> is a dictionary, so it keeps its keys in the order of their first
  insertion: an association list with distinct keys. Counting a word either bumps the count of
  its key or appends the key with count 1.
\<close>

fun count_add :: "'a \<Rightarrow> ('a \<times> nat) list \<Rightarrow> ('a \<times> nat) list" where
  "count_add w [] = [(w, 1)]"
| "count_add w ((k, c) # d) = (if k = w then (k, Suc c) # d else (k, c) # count_add w d)"

definition Counter :: "'a list \<Rightarrow> ('a \<times> nat) list" where
  "Counter ws = foldl (\<lambda>d w. count_add w d) [] ws"

text \<open>
  Sorting by count, largest first, keeping the earlier entry first among equal counts: what
  \<^verbatim>\<open>sorted(items, key=itemgetter(1), reverse=True)\<close> does, and \<^verbatim>\<open>heapq.nlargest\<close> is specified
  to agree with. \<^const>\<open>sort_key\<close> is a stable insertion sort.
\<close>

definition sort_desc :: "('a \<times> nat) list \<Rightarrow> ('a \<times> nat) list" where
  "sort_desc d = sort_key (\<lambda>p. - int (snd p)) d"

text \<open>\<^verbatim>\<open>Counter.most_common(n)\<close>; for \<^verbatim>\<open>n \<le> 0\<close> the result is empty.\<close>

definition most_common :: "int \<Rightarrow> ('a \<times> nat) list \<Rightarrow> ('a \<times> nat) list" where
  "most_common n d = take (nat n) (sort_desc d)"

section \<open>Series operations of pandas\<close>

text \<open>
  A cell of a text column is a string or missing (\<^verbatim>\<open>NaN\<close>, \<^const>\<open>None\<close>).
  \<^verbatim>\<open>Series.dropna()\<close> keeps the present values, in order.
\<close>

type_synonym cell = "string option"

fun dropna :: "'a option list \<Rightarrow> 'a list" where
  "dropna [] = []"
| "dropna (None # xs) = dropna xs"
| "dropna (Some x # xs) = x # dropna xs"

text \<open>\<^verbatim>\<open>Series.fillna(v)\<close> on one cell.\<close>

fun fillna :: "'a \<Rightarrow> 'a option \<Rightarrow> 'a" where
  "fillna v None = v"
| "fillna v (Some x) = x"

text \<open>
  \<^verbatim>\<open>Series.value_counts()\<close> of a column without missing values: the distinct values with their
  counts, largest count first. pandas collects the values in the order of their first
  appearance and then sorts by count; equal counts are taken to stay in that order.
\<close>

definition value_counts :: "'a list \<Rightarrow> ('a \<times> nat) list" where
  "value_counts xs = sort_desc (Counter xs)"

text \<open>\<^verbatim>\<open>Series.sort_index()\<close>: by key, ascending.\<close>

definition sort_index :: "('a :: linorder \<times> nat) list \<Rightarrow> ('a \<times> nat) list" where
  "sort_index d = sort_key fst d"

text \<open>
  \<^verbatim>\<open>Series.head(n)\<close> is the slice \<^verbatim>\<open>[:n]\<close>: the first \<open>n\<close> entries, and all but the last
  \<open>-n\<close> entries when \<open>n\<close> is negative.
\<close>

definition head :: "int \<Rightarrow> 'a list \<Rightarrow> 'a list" where
  "head n xs = (if n < 0 then take (length xs - nat (- n)) xs else take (nat n) xs)"

text \<open>
  \<^verbatim>\<open>Series.mean()\<close> is a float: \<^verbatim>\<open>NaN\<close> for an empty series. The quotient is the exact one;
  the rounding of the 64-bit division is not modelled.
\<close>

datatype float64 = NaN | Float rat

definition mean :: "nat list \<Rightarrow> float64" where
  "mean xs = (if xs = [] then NaN else Float (of_nat (sum_list xs) / of_nat (length xs)))"

section \<open>The tables\<close>

text \<open>
  A row of the metadata file has the five recognised columns; \<open>'d\<close> is the type of a
  \<^verbatim>\<open>publish_time\<close> cell, a text cell in the raw table and a parsed date afterwards.
  The cleaned table adds the three derived columns. A frame lists the names of the columns it
  has; the cells of a column that is not listed do not exist, and reading such a column raises
  \<^verbatim>\<open>KeyError\<close>.
\<close>

datatype timestamp = Timestamp (year: int) (month: nat) (day: nat)

record 'd paper =
  title :: cell
  abstract :: cell
  journal :: cell
  source_x :: cell
  publish_time :: 'd

record 'd clean_paper = "'d paper" +
  publication_year :: "int option"
  abstract_word_count :: nat
  journal_clean :: string

record 'r frame =
  columns :: "string list"
  rows :: "'r list"

type_synonym raw_frame = "cell paper frame"
type_synonym clean_frame = "timestamp option clean_paper frame"

datatype error = KeyError string | TypeError | AttributeError

record CORD19Analyzer =
  df :: "raw_frame option"
  df_clean :: "clean_frame option"

text \<open>Assigning to a column adds its name unless the frame has the column already.\<close>

definition add_column :: "string \<Rightarrow> string list \<Rightarrow> string list" where
  "add_column c cols = (if c \<in> set cols then cols else cols @ [c])"

section \<open>The cleaner\<close>

text \<open>
  \<^verbatim>\<open>pd.to_datetime(..., errors='coerce')\<close> is the parser of pandas, a parameter \<open>parse\<close> of the
  model: it maps the text of a cell to a date or, when the text is no date, to \<^verbatim>\<open>NaT\<close>. A
  missing cell is \<^verbatim>\<open>NaT\<close> as well.
\<close>

definition to_datetime :: "(string \<Rightarrow> timestamp option) \<Rightarrow> cell \<Rightarrow> timestamp option" where
  "to_datetime parse c = (case c of None \<Rightarrow> None | Some s \<Rightarrow> parse s)"

text \<open>
  The cells of the text columns are texts or missing. The reader of the file types a column
  that has rows but no value in any of them as a column of floats. Filling the missing cells
  of such a column with a text turns it into a text column, unless there is no row left to
  fill; the string methods behind \<^verbatim>\<open>.str\<close> refuse a column of floats with
  \<^verbatim>\<open>AttributeError\<close>. Columns whose values the reader takes for numbers are outside the model.
\<close>

definition float_column :: "cell list \<Rightarrow> bool" where
  "float_column cells = (cells \<noteq> [] \<and> list_all (\<lambda>c. c = None) cells)"

text \<open>
  \<^verbatim>\<open>clean_data\<close> returns \<^verbatim>\<open>None\<close> and changes nothing when no data is loaded. Otherwise it
  works column by column, each access to a column the frame lacks raising \<^verbatim>\<open>KeyError\<close>:
  drop the rows without title, fill the missing abstracts, parse the dates, take their years,
  count the words of the abstracts, normalise the journal names with the string methods. The
  result is stored in \<^verbatim>\<open>self.df_clean\<close>, which is also the value returned.
\<close>

definition clean_data ::
  "(string \<Rightarrow> timestamp option) \<Rightarrow> CORD19Analyzer \<Rightarrow> error + CORD19Analyzer" where
  "clean_data parse self =
     (case df self of
        None \<Rightarrow> Inr self
      | Some raw \<Rightarrow>
          if ''title'' \<notin> set (columns raw) then Inl (KeyError ''title'')
          else let kept = filter (\<lambda>r. title r \<noteq> None) (rows raw) in
          if ''abstract'' \<notin> set (columns raw) then Inl (KeyError ''abstract'')
          else let filled = map (\<lambda>r. r\<lparr>abstract := Some (fillna [] (abstract r))\<rparr>) kept in
          if ''publish_time'' \<notin> set (columns raw) then Inl (KeyError ''publish_time'')
          else let dated = map (\<lambda>r. \<lparr>title = title r, abstract = abstract r, journal = journal r,
                                     source_x = source_x r,
                                     publish_time = to_datetime parse (publish_time r)\<rparr>) filled in
          if ''journal'' \<notin> set (columns raw) then Inl (KeyError ''journal'')
          else if float_column (map journal (rows raw)) \<and> dated = [] then Inl AttributeError
          else Inr (self\<lparr>df_clean := Some
            \<lparr>columns = add_column ''journal_clean'' (add_column ''abstract_word_count''
                 (add_column ''publication_year'' (columns raw))),
             rows = map (\<lambda>r. \<lparr>title = title r, abstract = abstract r, journal = journal r,
                              source_x = source_x r, publish_time = publish_time r,
                              publication_year = map_option year (publish_time r),
                              abstract_word_count = length (str_split (fillna [] (abstract r))),
                              journal_clean = str_title (str_strip (fillna ''Unknown'' (journal r)))\<rparr>)
                      dated\<rparr>\<rparr>))"

section \<open>The aggregate queries of the analyzer\<close>

text \<open>
  Every query returns \<^verbatim>\<open>None\<close> when \<^verbatim>\<open>self.df_clean\<close> is \<^verbatim>\<open>None\<close>, and raises
  \<^verbatim>\<open>KeyError\<close> when the table lacks the column it reads.
\<close>

text \<open>
  \<^verbatim>\<open>analyze_publications_over_time\<close>: the rows with a year, from 2019 on, up to 2023, counted
  per year and ordered by year.
\<close>

definition analyze_publications_over_time ::
  "CORD19Analyzer \<Rightarrow> error + (int \<times> nat) list option" where
  "analyze_publications_over_time self =
     (case df_clean self of
        None \<Rightarrow> Inr None
      | Some t \<Rightarrow>
          if ''publication_year'' \<notin> set (columns t) then Inl (KeyError ''publication_year'')
          else let valid_years = dropna (map publication_year (rows t));
                   valid_years = filter (\<lambda>y. 2019 \<le> y) valid_years;
                   valid_years = filter (\<lambda>y. y \<le> 2023) valid_years
               in Inr (Some (sort_index (value_counts valid_years))))"

text \<open>\<^verbatim>\<open>analyze_top_journals\<close>\<close>

definition analyze_top_journals ::
  "CORD19Analyzer \<Rightarrow> int \<Rightarrow> error + (string \<times> nat) list option" where
  "analyze_top_journals self top_n =
     (case df_clean self of
        None \<Rightarrow> Inr None
      | Some t \<Rightarrow>
          if ''journal_clean'' \<notin> set (columns t) then Inl (KeyError ''journal_clean'')
          else Inr (Some (head top_n (value_counts (map journal_clean (rows t))))))"

text \<open>\<^verbatim>\<open>analyze_sources\<close>; \<^verbatim>\<open>value_counts\<close> leaves the missing sources out.\<close>

definition analyze_sources :: "CORD19Analyzer \<Rightarrow> error + (string \<times> nat) list option" where
  "analyze_sources self =
     (case df_clean self of
        None \<Rightarrow> Inr None
      | Some t \<Rightarrow>
          if ''source_x'' \<notin> set (columns t) then Inl (KeyError ''source_x'')
          else Inr (Some (head 10 (value_counts (dropna (map source_x (rows t)))))))"

text \<open>
  The \<^verbatim>\<open>column\<close> argument of the word analysis ranges over the text columns of the cleaned
  table; its callers pass \<^verbatim>\<open>'title'\<close> and \<^verbatim>\<open>'abstract'\<close>.
\<close>

datatype text_column = Title | Abstract | Journal | Source_x | Journal_clean

fun column_name :: "text_column \<Rightarrow> string" where
  "column_name Title = ''title''"
| "column_name Abstract = ''abstract''"
| "column_name Journal = ''journal''"
| "column_name Source_x = ''source_x''"
| "column_name Journal_clean = ''journal_clean''"

fun column_cell :: "text_column \<Rightarrow> ('d, 'z) clean_paper_scheme \<Rightarrow> cell" where
  "column_cell Title r = title r"
| "column_cell Abstract r = abstract r"
| "column_cell Journal r = journal r"
| "column_cell Source_x r = source_x r"
| "column_cell Journal_clean r = Some (journal_clean r)"

definition stop_words :: "string list" where
  "stop_words = [''the'', ''and'', ''of'', ''in'', ''to'', ''a'', ''for'', ''with'', ''on'', ''by'',
                 ''as'', ''an'', ''from'', ''that'', ''this'', ''is'', ''are'', ''was'', ''were'',
                 ''be'', ''has'', ''have'', ''had'', ''but'', ''not'', ''at'', ''which'', ''or'',
                 ''it'', ''its'', ''their'', ''they'', ''them'', ''these'', ''those'', ''such'']"

text \<open>
  The three steps of \<^verbatim>\<open>analyze_word_frequencies\<close> on the cells of a column: join the present
  cells with blanks, lower-case the text and find the words, drop the stop words.
\<close>

definition all_text :: "cell list \<Rightarrow> string" where
  "all_text cells = str_join '' '' (dropna cells)"

definition words_of :: "string \<Rightarrow> string list" where
  "words_of text = findall_words False (str_lower text)"

definition filtered_words :: "string list \<Rightarrow> string list" where
  "filtered_words ws = filter (\<lambda>word. word \<notin> set stop_words) ws"

definition analyze_word_frequencies ::
  "CORD19Analyzer \<Rightarrow> text_column \<Rightarrow> int \<Rightarrow> error + (string \<times> nat) list option" where
  "analyze_word_frequencies self column top_n =
     (case df_clean self of
        None \<Rightarrow> Inr None
      | Some t \<Rightarrow>
          if column_name column \<notin> set (columns t) then Inl (KeyError (column_name column))
          else let text = all_text (map (column_cell column) (rows t));
                   words = words_of text;
                   word_freq = Counter (filtered_words words)
               in Inr (Some (most_common top_n word_freq)))"

section \<open>The application\<close>

text \<open>
  The choices made in the sidebar: the year range of the slider and the journals and sources
  selected in the two multi-selects.
\<close>

record criteria =
  year_range :: "int \<times> int"
  selected_journals :: "string list"
  selected_sources :: "string list"

text \<open>
  The three filters of \<^verbatim>\<open>main\<close>, applied one after the other. A comparison with a missing
  year is false, and a missing source is in no selection. An empty selection is falsy, so its
  filter is skipped.
\<close>

definition year_in_range :: "int \<times> int \<Rightarrow> int option \<Rightarrow> bool" where
  "year_in_range yr y = (case y of None \<Rightarrow> False | Some v \<Rightarrow> fst yr \<le> v \<and> v \<le> snd yr)"

definition isin :: "'a option \<Rightarrow> 'a list \<Rightarrow> bool" where
  "isin c vs = (case c of None \<Rightarrow> False | Some v \<Rightarrow> v \<in> set vs)"

definition apply_filters :: "criteria \<Rightarrow> clean_frame \<Rightarrow> error + clean_frame" where
  "apply_filters c working =
     (let filtered_df = working in
      if ''publication_year'' \<notin> set (columns filtered_df) then Inl (KeyError ''publication_year'')
      else let filtered_df = filtered_df
                 \<lparr>rows := filter (\<lambda>r. year_in_range (year_range c) (publication_year r))
                                  (rows filtered_df)\<rparr> in
      if selected_journals c \<noteq> [] \<and> ''journal_clean'' \<notin> set (columns filtered_df)
      then Inl (KeyError ''journal_clean'')
      else let filtered_df =
                 (if selected_journals c \<noteq> []
                  then filtered_df\<lparr>rows := filter (\<lambda>r. journal_clean r \<in> set (selected_journals c))
                                                  (rows filtered_df)\<rparr>
                  else filtered_df) in
      if selected_sources c \<noteq> [] \<and> ''source_x'' \<notin> set (columns filtered_df)
      then Inl (KeyError ''source_x'')
      else Inr (if selected_sources c \<noteq> []
                then filtered_df\<lparr>rows := filter (\<lambda>r. isin (source_x r) (selected_sources c))
                                                (rows filtered_df)\<rparr>
                else filtered_df))"

text \<open>The four key metrics of the overview tab, computed from the filtered table.\<close>

record metrics =
  total_papers :: nat
  unique_journals :: nat
  avg_words :: float64
  complete_abstracts :: nat

definition key_metrics :: "clean_frame \<Rightarrow> error + metrics" where
  "key_metrics filtered_df =
     (if ''journal_clean'' \<notin> set (columns filtered_df) then Inl (KeyError ''journal_clean'')
      else if ''abstract_word_count'' \<notin> set (columns filtered_df)
      then Inl (KeyError ''abstract_word_count'')
      else Inr \<lparr>total_papers = length (rows filtered_df),
                unique_journals = length (remdups (map journal_clean (rows filtered_df))),
                avg_words = mean (map abstract_word_count (rows filtered_df)),
                complete_abstracts =
                  length (filter (\<lambda>r. 0 < abstract_word_count r) (rows filtered_df))\<rparr>)"

text \<open>
  What \<^verbatim>\<open>main\<close> computes for one run of the script, that is for one state of the sidebar: the
  filtered table, the metrics and the aggregates handed to the charts. The layout, the charts,
  the word cloud, the monthly counts and the data sample are left out, but for the columns
  they read, whose absence raises \<^verbatim>\<open>KeyError\<close>. The word tables are asked
  of the analyzer; the table of the abstracts is computed only when the joined abstracts of the
  filtered table have more than 100 characters.
\<close>

record view =
  filtered :: clean_frame
  key :: metrics
  yearly_counts :: "(int \<times> nat) list"
  top_journals_filtered :: "(string \<times> nat) list"
  source_dist :: "(string \<times> nat) list"
  title_words :: "(string \<times> nat) list option"
  abstract_words :: "(string \<times> nat) list option"

definition main :: "CORD19Analyzer \<Rightarrow> criteria \<Rightarrow> error + view" where
  "main analyzer c =
     (case df_clean analyzer of
        None \<Rightarrow> Inl TypeError
      | Some t \<Rightarrow>
          if ''publication_year'' \<notin> set (columns t) then Inl (KeyError ''publication_year'')
          else case analyze_top_journals analyzer 20 of Inl e \<Rightarrow> Inl e | Inr top_journals \<Rightarrow>
          if ''source_x'' \<notin> set (columns t) then Inl (KeyError ''source_x'')
          else case apply_filters c t of Inl e \<Rightarrow> Inl e | Inr filtered_df \<Rightarrow>
          case key_metrics filtered_df of Inl e \<Rightarrow> Inl e | Inr m \<Rightarrow>
          if ''publish_time'' \<notin> set (columns filtered_df) then Inl (KeyError ''publish_time'')
          else if ''title'' \<notin> set (columns filtered_df) then Inl (KeyError ''title'')
          else case analyze_word_frequencies analyzer Title 15 of Inl e \<Rightarrow> Inl e | Inr tw \<Rightarrow>
          if ''abstract'' \<notin> set (columns filtered_df) then Inl (KeyError ''abstract'')
          else case (if 100 < length (all_text (map abstract (rows filtered_df)))
                     then analyze_word_frequencies analyzer Abstract 15 else Inr None) of
            Inl e \<Rightarrow> Inl e
          | Inr aw \<Rightarrow>
              Inr \<lparr>filtered = filtered_df,
                   key = m,
                   yearly_counts =
                     sort_index (value_counts (dropna (map publication_year (rows filtered_df)))),
                   top_journals_filtered =
                     head 10 (value_counts (map journal_clean (rows filtered_df))),
                   source_dist = head 10 (value_counts (dropna (map source_x (rows filtered_df)))),
                   title_words = tw,
                   abstract_words = aw\<rparr>)"

section \<open>The properties in the words of the specification\<close>

text \<open>
  The number of whitespace-delimited tokens of a text: count the characters that are not
  whitespace and start a token, that is, stand first or behind whitespace.
\<close>

fun tokens_from :: "bool \<Rightarrow> string \<Rightarrow> nat" where
  "tokens_from in_token [] = 0"
| "tokens_from in_token (c # cs) =
     (if isspace c then tokens_from False cs
      else (if in_token then 0 else 1) + tokens_from True cs)"

definition token_count :: "string \<Rightarrow> nat" where
  "token_count s = tokens_from False s"

text \<open>The predicate of the filter engine: all three dimensions hold of the row.\<close>

definition row_matches :: "criteria \<Rightarrow> ('d, 'z) clean_paper_scheme \<Rightarrow> bool" where
  "row_matches c r =
     ((publication_year r \<noteq> None \<and> fst (year_range c) \<le> the (publication_year r)
         \<and> the (publication_year r) \<le> snd (year_range c))
      \<and> (selected_journals c \<noteq> [] \<longrightarrow> journal_clean r \<in> set (selected_journals c))
      \<and> (selected_sources c \<noteq> [] \<longrightarrow>
            source_x r \<noteq> None \<and> the (source_x r) \<in> set (selected_sources c)))"







section \<open>Example tables\<close>

text \<open>A parser that recognises no date, and the five recognised column names.\<close>

definition no_date :: "string \<Rightarrow> timestamp option" where
  "no_date s = None"

definition recognised_columns :: "string list" where
  "recognised_columns = [''title'', ''abstract'', ''journal'', ''source_x'', ''publish_time'']"

definition cleaned_columns :: "string list" where
  "cleaned_columns = recognised_columns @ [''publication_year'', ''abstract_word_count'', ''journal_clean'']"

text \<open>A raw row with a title cell and an abstract cell, every other cell missing.\<close>

definition raw_paper :: "cell \<Rightarrow> cell \<Rightarrow> cell paper" where
  "raw_paper t a = \<lparr>title = t, abstract = a, journal = None, source_x = None, publish_time = None\<rparr>"

definition loaded :: "string list \<Rightarrow> cell paper list \<Rightarrow> CORD19Analyzer" where
  "loaded cols rs = \<lparr>df = Some \<lparr>columns = cols, rows = rs\<rparr>, df_clean = None\<rparr>"

text \<open>A cleaned row of a paper with a title, a journal, a source and a year.\<close>

definition cleaned_paper ::
  "string \<Rightarrow> string \<Rightarrow> cell \<Rightarrow> int option \<Rightarrow> timestamp option clean_paper" where
  "cleaned_paper t j s y =
     \<lparr>title = Some t, abstract = Some [], journal = Some j, source_x = s,
      publish_time = map_option (\<lambda>v. Timestamp v 1 1) y,
      publication_year = y, abstract_word_count = 0, journal_clean = j\<rparr>"

definition cleaned :: "timestamp option clean_paper list \<Rightarrow> CORD19Analyzer" where
  "cleaned rs = \<lparr>df = None, df_clean = Some \<lparr>columns = cleaned_columns, rows = rs\<rparr>\<rparr>"



text \<open>Two papers of different years, and a year range that selects the first one only.\<close>

definition two_years :: CORD19Analyzer where
  "two_years =
     cleaned [cleaned_paper ''alpha virus'' ''Nature'' (Some ''PMC'') (Some 2020),
              cleaned_paper ''beta virus'' ''Nature'' (Some ''PMC'') (Some 2021)]"

definition only_2020 :: criteria where
  "only_2020 = \<lparr>year_range = (2020, 2020), selected_journals = [], selected_sources = []\<rparr>"

text \<open>
  Two papers of different journals and sources, and a selection of the journal of the first
  with the source of the second, which no paper matches.
\<close>

definition two_sources :: CORD19Analyzer where
  "two_sources =
     cleaned [cleaned_paper ''alpha virus'' ''Nature'' (Some ''PMC'') (Some 2020),
              cleaned_paper ''beta virus'' ''Science'' (Some ''Elsevier'') (Some 2021)]"

definition no_match :: criteria where
  "no_match = \<lparr>year_range = (2020, 2021), selected_journals = [''Nature''],
               selected_sources = [''Elsevier'']\<rparr>"

text \<open>Three papers in three journals.\<close>

definition three_journals :: CORD19Analyzer where
  "three_journals =
     cleaned [cleaned_paper ''one'' ''Nature'' None None,
              cleaned_paper ''two'' ''Science'' None None,
              cleaned_paper ''three'' ''Cell'' None None]"

text \<open>A file without the \<^verbatim>\<open>abstract\<close> column, and one without the \<^verbatim>\<open>source_x\<close> column.\<close>

definition without_abstract :: CORD19Analyzer where
  "without_abstract =
     loaded [''title'', ''journal'', ''source_x'', ''publish_time'']
       [raw_paper (Some ''a title'') None]"

definition without_source :: CORD19Analyzer where
  "without_source =
     loaded [''title'', ''abstract'', ''journal'', ''publish_time'']
       [raw_paper (Some ''a title'') None]"

text \<open>The cleaned table without rows.\<close>

definition no_rows :: clean_frame where
  "no_rows = \<lparr>columns = cleaned_columns, rows = []\<rparr>"

text \<open>
  Three raw rows: one with an abstract of two words, one without title, one without abstract.
\<close>

definition mixed_abstracts :: CORD19Analyzer where
  "mixed_abstracts =
     loaded recognised_columns
       [raw_paper (Some ''first'') (Some ''two  words''),
        raw_paper None (Some ''dropped''),
        raw_paper (Some ''third'') None]"

text \<open>A raw table whose only publish date is no date.\<close>

definition undated :: CORD19Analyzer where
  "undated =
     loaded recognised_columns
       [\<lparr>title = Some ''a title'', abstract = None, journal = None, source_x = None,
         publish_time = Some ''not a date''\<rparr>]"




text \<open>Six papers: two of 2020, one of 2021, one before 2019, one after 2023, one undated.\<close>

definition six_years :: CORD19Analyzer where
  "six_years =
     cleaned [cleaned_paper ''one'' ''Nature'' None (Some 2021),
              cleaned_paper ''two'' ''Nature'' None (Some 2018),
              cleaned_paper ''three'' ''Nature'' None None,
              cleaned_paper ''four'' ''Nature'' None (Some 2020),
              cleaned_paper ''five'' ''Nature'' None (Some 2024),
              cleaned_paper ''six'' ''Nature'' None (Some 2020)]"

section \<open>Facts about the columns\<close>

lemma set_add_column: "set (add_column c cols) = insert c (set cols)"
  by (auto simp: add_column_def)

lemma clean_data_succeeds:
  assumes "df self = Some raw"
    and "set [''title'', ''abstract'', ''publish_time'', ''journal''] \<subseteq> set (columns raw)"
    and "filter (\<lambda>r. title r \<noteq> None) (rows raw) \<noteq> []"
  shows "\<exists>self'. clean_data parse self = Inr self'"
  using assms by (simp add: clean_data_def Let_def)

lemma dropna_all_None: "(\<forall>x\<in>set xs. x = None) \<Longrightarrow> dropna xs = []"
  by (induction xs rule: dropna.induct) auto

lemma value_counts_Nil: "value_counts [] = []"
  by (simp add: value_counts_def sort_desc_def Counter_def)

section \<open>The scenario of the three titles\<close>




section \<open>The key metrics of the empty table\<close>

text \<open>
  Claim C6 fails on the code. For a table without rows the four metrics are computed without
  an exception, and the number of papers, the number of distinct journals and the number of
  papers with an abstract are 0; but the mean of the word counts is \<^verbatim>\<open>NaN\<close>, the mean of an
  empty series, where the claim asks for 0.0. Other places of \<^verbatim>\<open>main\<close> guard the case of no
  data (the bounds of the year slider, the monthly chart, the word cloud); the mean is computed
  without a guard.
\<close>

theorem key_metrics_empty_table:
  assumes "rows t = []"
    and "''journal_clean'' \<in> set (columns t)"
    and "''abstract_word_count'' \<in> set (columns t)"
  shows "key_metrics t
           = Inr \<lparr>total_papers = 0, unique_journals = 0, avg_words = NaN, complete_abstracts = 0\<rparr>"
  using assms by (simp add: key_metrics_def mean_def)

theorem key_metrics_empty_table_witness:
  "rows no_rows = []
   \<and> ''journal_clean'' \<in> set (columns no_rows)
   \<and> ''abstract_word_count'' \<in> set (columns no_rows)
   \<and> key_metrics no_rows
       = Inr \<lparr>total_papers = 0, unique_journals = 0, avg_words = NaN, complete_abstracts = 0\<rparr>"
proof -
  have r: "rows no_rows = []"
    by (simp add: no_rows_def)
  have j: "''journal_clean'' \<in> set (columns no_rows)"
    by (simp add: no_rows_def cleaned_columns_def recognised_columns_def)
  have a: "''abstract_word_count'' \<in> set (columns no_rows)"
    by (simp add: no_rows_def cleaned_columns_def recognised_columns_def)
  show ?thesis
    using r j a key_metrics_empty_table [OF r j a] by simp
qed

text \<open>
  A selection that no paper matches leads \<^verbatim>\<open>main\<close> to these metrics: the filtered table is
  empty and the mean presented is \<^verbatim>\<open>NaN\<close>.
\<close>

lemma main_no_match_metrics:
  "(case main two_sources no_match of
      Inl e \<Rightarrow> False
    | Inr v \<Rightarrow>
        rows (filtered v) = []
        \<and> key v = \<lparr>total_papers = 0, unique_journals = 0, avg_words = NaN,
                     complete_abstracts = 0\<rparr>)"
  by code_simp

text \<open>The metrics of the empty table are not the four zeros.\<close>

theorem key_metrics_mean_not_zero:
  "key_metrics no_rows
     \<noteq> Inr \<lparr>total_papers = 0, unique_journals = 0, avg_words = Float 0, complete_abstracts = 0\<rparr>"
  by (simp add: key_metrics_def no_rows_def cleaned_columns_def recognised_columns_def mean_def)

section \<open>Tables that lack a column\<close>

text \<open>
  Claim C9 fails on the code. When a loaded table lacks one of the columns \<^verbatim>\<open>title\<close>,
  \<^verbatim>\<open>abstract\<close>, \<^verbatim>\<open>publish_time\<close> and \<^verbatim>\<open>journal\<close>, cleaning does not treat the column as
  all-absent: it fails with the \<^verbatim>\<open>KeyError\<close> of a column that is missing. When only
  \<^verbatim>\<open>source_x\<close> is missing and cleaning succeeds, the queries over that column, the source
  distribution and the word analysis of the column, fail with \<^verbatim>\<open>KeyError\<close> on the cleaned
  table; they give no empty result.
\<close>

theorem clean_data_missing_column:
  "(df self = Some raw
      \<and> \<not> set [''title'', ''abstract'', ''publish_time'', ''journal''] \<subseteq> set (columns raw)
      \<longrightarrow> (\<exists>c \<in> set [''title'', ''abstract'', ''publish_time'', ''journal''].
             c \<notin> set (columns raw) \<and> clean_data parse self = Inl (KeyError c)))
   \<and> (df self = Some raw \<and> clean_data parse self = Inr self'
      \<and> ''source_x'' \<notin> set (columns raw)
      \<longrightarrow> analyze_sources self' = Inl (KeyError ''source_x'')
          \<and> analyze_word_frequencies self' Source_x n = Inl (KeyError ''source_x''))"
proof (intro conjI impI)
  assume "df self = Some raw
      \<and> \<not> set [''title'', ''abstract'', ''publish_time'', ''journal''] \<subseteq> set (columns raw)"
  then show "\<exists>c \<in> set [''title'', ''abstract'', ''publish_time'', ''journal''].
               c \<notin> set (columns raw) \<and> clean_data parse self = Inl (KeyError c)"
    by (auto simp: clean_data_def Let_def)
next
  assume a: "df self = Some raw \<and> clean_data parse self = Inr self'
      \<and> ''source_x'' \<notin> set (columns raw)"
  then obtain t where t: "df_clean self' = Some t" and c: "''source_x'' \<notin> set (columns t)"
    by (auto simp: clean_data_def Let_def set_add_column split: if_splits)
  show "analyze_sources self' = Inl (KeyError ''source_x'')"
    using t c by (simp add: analyze_sources_def)
  show "analyze_word_frequencies self' Source_x n = Inl (KeyError ''source_x'')"
    using t c by (simp add: analyze_word_frequencies_def)
qed

theorem clean_data_missing_column_witness:
  "clean_data no_date without_abstract = Inl (KeyError ''abstract'')
   \<and> (\<exists>self'. clean_data no_date without_source = Inr self'
         \<and> analyze_sources self' = Inl (KeyError ''source_x'')
         \<and> analyze_word_frequencies self' Source_x 20 = Inl (KeyError ''source_x''))"
proof -
  let ?no_abstract = "\<lparr>columns = [''title'', ''journal'', ''source_x'', ''publish_time''],
                       rows = [raw_paper (Some ''a title'') None]\<rparr>"
  let ?no_source = "\<lparr>columns = [''title'', ''abstract'', ''journal'', ''publish_time''],
                     rows = [raw_paper (Some ''a title'') None]\<rparr>"
  have a: "df without_abstract = Some ?no_abstract"
    by (simp add: without_abstract_def loaded_def)
  have m: "\<not> set [''title'', ''abstract'', ''publish_time'', ''journal'']
               \<subseteq> set (columns ?no_abstract)"
    by simp
  have "\<exists>c \<in> set [''title'', ''abstract'', ''publish_time'', ''journal''].
          c \<notin> set (columns ?no_abstract)
          \<and> clean_data no_date without_abstract = Inl (KeyError c)"
    using clean_data_missing_column [of without_abstract ?no_abstract no_date] a m by blast
  then have first: "clean_data no_date without_abstract = Inl (KeyError ''abstract'')"
    by auto
  have b: "df without_source = Some ?no_source"
    by (simp add: without_source_def loaded_def)
  have "set [''title'', ''abstract'', ''publish_time'', ''journal''] \<subseteq> set (columns ?no_source)"
    by simp
  moreover have "filter (\<lambda>r. title r \<noteq> None) (rows ?no_source) \<noteq> []"
    by (simp add: raw_paper_def)
  ultimately obtain self' where c: "clean_data no_date without_source = Inr self'"
    using clean_data_succeeds [OF b] by blast
  have x: "''source_x'' \<notin> set (columns ?no_source)"
    by simp
  have "analyze_sources self' = Inl (KeyError ''source_x'')
        \<and> analyze_word_frequencies self' Source_x 20 = Inl (KeyError ''source_x'')"
    using clean_data_missing_column [of without_source ?no_source no_date self' 20] b c x
    by blast
  then show ?thesis
    using first c by (intro conjI exI [of _ self']) simp_all
qed

section \<open>Properties of the cleaner\<close>

text \<open>
  \<^verbatim>\<open>str.split\<close> returns as many words as the text has tokens: skipping leading whitespace
  does not change the number of tokens, and a token that has begun ends at the next whitespace.
\<close>

lemma tokens_from_skip_space: "tokens_from False s = tokens_from False (dropWhile isspace s)"
  by (induction s) auto

lemma tokens_from_skip_token:
  "tokens_from True s = tokens_from False (dropWhile (\<lambda>x. \<not> isspace x) s)"
  by (induction s) auto

lemma hd_dropWhile_isspace: "dropWhile isspace s = c # cs \<Longrightarrow> \<not> isspace c"
  using hd_dropWhile [of isspace s] by auto

lemma length_str_split: "length (str_split s) = token_count s"
proof (induction s rule: str_split.induct)
  case (1 s)
  show ?case
  proof (cases "dropWhile isspace s")
    case Nil
    have "tokens_from False (dropWhile isspace s) = 0"
      by (simp only: Nil tokens_from.simps)
    then have "token_count s = 0"
      by (simp only: token_count_def tokens_from_skip_space [of s])
    moreover have "str_split s = []"
      by (subst str_split.simps) (simp only: Nil list.case)
    ultimately show ?thesis
      by simp
  next
    case (Cons c cs)
    then have ns: "\<not> isspace c"
      by (rule hd_dropWhile_isspace)
    have "token_count s = tokens_from False (dropWhile isspace s)"
      by (simp only: token_count_def tokens_from_skip_space [of s])
    also have "\<dots> = tokens_from False (c # cs)"
      by (simp only: Cons)
    also have "\<dots> = Suc (tokens_from True cs)"
      using ns by simp
    also have "\<dots> = Suc (token_count (dropWhile (\<lambda>x. \<not> isspace x) cs))"
      by (simp add: tokens_from_skip_token token_count_def)
    also have "\<dots> = Suc (length (str_split (dropWhile (\<lambda>x. \<not> isspace x) cs)))"
      using "1.IH" [OF Cons] by simp
    finally have "token_count s = Suc (length (str_split (dropWhile (\<lambda>x. \<not> isspace x) cs)))" .
    moreover have "str_split s
        = (c # takeWhile (\<lambda>x. \<not> isspace x) cs) # str_split (dropWhile (\<lambda>x. \<not> isspace x) cs)"
      by (subst str_split.simps) (simp only: Cons list.case)
    ultimately show ?thesis
      by simp
  qed
qed

text \<open>
  Claim C1. When \<^verbatim>\<open>clean_data\<close> produces the working table of a loaded raw table, the table
  holds the raw rows that have a title, in their order; no row of it lacks a title; every
  abstract is present, a missing one having become the empty string; and the word count of
  every row is the number of whitespace-delimited tokens of its abstract, which is 0 for the
  empty abstract.
\<close>

theorem clean_data_working_table:
  assumes "df self = Some raw"
    and "clean_data parse self = Inr self'"
  shows "\<exists>t. df_clean self' = Some t
           \<and> map title (rows t) = map title (filter (\<lambda>r. title r \<noteq> None) (rows raw))
           \<and> map abstract (rows t)
               = map (\<lambda>r. Some (fillna [] (abstract r))) (filter (\<lambda>r. title r \<noteq> None) (rows raw))
           \<and> (\<forall>r\<in>set (rows t).
                 title r \<noteq> None
                 \<and> (\<exists>a. abstract r = Some a \<and> abstract_word_count r = token_count a))
           \<and> token_count [] = 0"
  using assms
  by (auto simp: clean_data_def Let_def length_str_split token_count_def split: if_splits)

theorem clean_data_working_table_witness:
  "\<exists>self' t. clean_data no_date mixed_abstracts = Inr self'
      \<and> df_clean self' = Some t
      \<and> map title (rows t) = [Some ''first'', Some ''third'']
      \<and> map abstract (rows t) = [Some ''two  words'', Some []]
      \<and> list_all (\<lambda>r. title r \<noteq> None \<and> abstract r \<noteq> None
                       \<and> abstract_word_count r = token_count (fillna [] (abstract r))) (rows t)"
proof -
  let ?raw = "\<lparr>columns = recognised_columns,
               rows = [raw_paper (Some ''first'') (Some ''two  words''),
                       raw_paper None (Some ''dropped''),
                       raw_paper (Some ''third'') None]\<rparr>"
  have d: "df mixed_abstracts = Some ?raw"
    by (simp add: mixed_abstracts_def loaded_def)
  have "set [''title'', ''abstract'', ''publish_time'', ''journal''] \<subseteq> set (columns ?raw)"
    by (simp add: recognised_columns_def)
  moreover have "filter (\<lambda>r. title r \<noteq> None) (rows ?raw) \<noteq> []"
    by (simp add: raw_paper_def)
  ultimately obtain self' where c: "clean_data no_date mixed_abstracts = Inr self'"
    using clean_data_succeeds [OF d] by blast
  obtain t where t: "df_clean self' = Some t"
    and ti: "map title (rows t) = map title (filter (\<lambda>r. title r \<noteq> None) (rows ?raw))"
    and ab: "map abstract (rows t)
               = map (\<lambda>r. Some (fillna [] (abstract r))) (filter (\<lambda>r. title r \<noteq> None) (rows ?raw))"
    and al: "\<forall>r\<in>set (rows t).
                 title r \<noteq> None
                 \<and> (\<exists>a. abstract r = Some a \<and> abstract_word_count r = token_count a)"
    using clean_data_working_table [OF d c] by blast
  have "list_all (\<lambda>r. title r \<noteq> None \<and> abstract r \<noteq> None
                       \<and> abstract_word_count r = token_count (fillna [] (abstract r))) (rows t)"
    using al by (auto simp: list_all_iff)
  moreover have "map title (rows t) = [Some ''first'', Some ''third'']"
    using ti by (simp add: raw_paper_def)
  moreover have "map abstract (rows t) = [Some ''two  words'', Some []]"
    using ab by (simp add: raw_paper_def)
  ultimately show ?thesis
    using c t by (intro exI [of _ self'] exI [of _ t]) simp
qed

section \<open>Properties of the filter engine\<close>

lemma filter_year_only:
  fixes xs :: "('d, 'z) clean_paper_scheme list"
  assumes "selected_journals c = []" and "selected_sources c = []"
  shows "filter (\<lambda>r. year_in_range (year_range c) (publication_year r)) xs
           = filter (row_matches c) xs"
  using assms
  by (induction xs) (auto simp: row_matches_def year_in_range_def split: option.splits)

lemma filter_year_journal:
  fixes xs :: "('d, 'z) clean_paper_scheme list"
  assumes "selected_journals c \<noteq> []" and "selected_sources c = []"
  shows "filter (\<lambda>r. journal_clean r \<in> set (selected_journals c))
           (filter (\<lambda>r. year_in_range (year_range c) (publication_year r)) xs)
           = filter (row_matches c) xs"
  using assms
  by (induction xs) (auto simp: row_matches_def year_in_range_def split: option.splits)

lemma filter_year_source:
  fixes xs :: "('d, 'z) clean_paper_scheme list"
  assumes "selected_journals c = []" and "selected_sources c \<noteq> []"
  shows "filter (\<lambda>r. isin (source_x r) (selected_sources c))
           (filter (\<lambda>r. year_in_range (year_range c) (publication_year r)) xs)
           = filter (row_matches c) xs"
  using assms
  by (induction xs) (auto simp: row_matches_def isin_def year_in_range_def split: option.splits)

lemma filter_year_journal_source:
  fixes xs :: "('d, 'z) clean_paper_scheme list"
  assumes "selected_journals c \<noteq> []" and "selected_sources c \<noteq> []"
  shows "filter (\<lambda>r. isin (source_x r) (selected_sources c))
           (filter (\<lambda>r. journal_clean r \<in> set (selected_journals c))
             (filter (\<lambda>r. year_in_range (year_range c) (publication_year r)) xs))
           = filter (row_matches c) xs"
  using assms
  by (induction xs) (auto simp: row_matches_def isin_def year_in_range_def split: option.splits)

text \<open>
  Claim C2. On a working table that has the three columns the filters read, the filters of the
  application return a table, its rows are the rows of the working table that match the
  criteria, in their order, and so a row is in the output iff it is a row of the working table
  and its year is present and within the range, its normalised journal is selected unless no
  journal is selected, and its source is present and selected unless no source is selected.
\<close>

theorem apply_filters_row_matches:
  assumes "set [''publication_year'', ''journal_clean'', ''source_x''] \<subseteq> set (columns t)"
  shows "\<exists>t'. apply_filters c t = Inr t'
           \<and> rows t' = filter (row_matches c) (rows t)
           \<and> (\<forall>r. r \<in> set (rows t') \<longleftrightarrow> r \<in> set (rows t) \<and> row_matches c r)"
proof -
  consider "selected_journals c = []" "selected_sources c = []"
    | "selected_journals c \<noteq> []" "selected_sources c = []"
    | "selected_journals c = []" "selected_sources c \<noteq> []"
    | "selected_journals c \<noteq> []" "selected_sources c \<noteq> []"
    by blast
  then show ?thesis
  proof cases
    case 1
    then show ?thesis
      using assms filter_year_only [OF 1, of "rows t"]
      by (simp add: apply_filters_def Let_def)
  next
    case 2
    then show ?thesis
      using assms filter_year_journal [OF 2, of "rows t"]
      by (simp add: apply_filters_def Let_def)
  next
    case 3
    then show ?thesis
      using assms filter_year_source [OF 3, of "rows t"]
      by (simp add: apply_filters_def Let_def)
  next
    case 4
    then show ?thesis
      using assms filter_year_journal_source [OF 4, of "rows t"]
      by (simp add: apply_filters_def Let_def)
  qed
qed

theorem apply_filters_row_matches_witness:
  "\<exists>t'. apply_filters only_2020 \<lparr>columns = cleaned_columns,
            rows = [cleaned_paper ''alpha virus'' ''Nature'' (Some ''PMC'') (Some 2020),
                    cleaned_paper ''beta virus'' ''Nature'' (Some ''PMC'') (Some 2021)]\<rparr> = Inr t'
      \<and> rows t' = [cleaned_paper ''alpha virus'' ''Nature'' (Some ''PMC'') (Some 2020)]"
proof -
  let ?t = "\<lparr>columns = cleaned_columns,
            rows = [cleaned_paper ''alpha virus'' ''Nature'' (Some ''PMC'') (Some 2020),
                    cleaned_paper ''beta virus'' ''Nature'' (Some ''PMC'') (Some 2021)]\<rparr>"
  have "set [''publication_year'', ''journal_clean'', ''source_x''] \<subseteq> set (columns ?t)"
    by (simp add: cleaned_columns_def recognised_columns_def)
  from apply_filters_row_matches [OF this, of only_2020]
  obtain t' where "apply_filters only_2020 ?t = Inr t'"
    and "rows t' = filter (row_matches only_2020) (rows ?t)"
    by blast
  moreover have "filter (row_matches only_2020) (rows ?t)
                   = [cleaned_paper ''alpha virus'' ''Nature'' (Some ''PMC'') (Some 2020)]"
    by (simp add: row_matches_def only_2020_def cleaned_paper_def)
  ultimately show ?thesis
    by simp
qed

section \<open>The word tables of the application\<close>

text \<open>
  The word table of the titles that \<^verbatim>\<open>main\<close> presents is the one the analyzer computes from
  its own cleaned table, whatever the criteria are.
\<close>

lemma main_title_words:
  "main analyzer c = Inr v \<Longrightarrow> analyze_word_frequencies analyzer Title 15 = Inr (title_words v)"
  by (auto simp: main_def split: option.splits sum.splits if_splits)

text \<open>
  Claim C7 fails on the code. With two papers of the years 2020 and 2021 and the year range
  2020 to 2020, the filtered table holds the first paper only, but the word table of the titles
  that \<^verbatim>\<open>main\<close> presents counts the words of both papers, while the word analysis of the
  filtered table counts the words of the first: \<^verbatim>\<open>main\<close> asks the analyzer, which reads its
  own unfiltered table.
\<close>

theorem main_title_words_unfiltered:
  "(case main two_years only_2020 of
      Inl e \<Rightarrow> False
    | Inr v \<Rightarrow>
        map title (rows (filtered v)) = [Some ''alpha virus'']
        \<and> title_words v = Some [(''virus'', 2), (''alpha'', 1), (''beta'', 1)]
        \<and> analyze_word_frequencies (two_years\<lparr>df_clean := Some (filtered v)\<rparr>) Title 15
            = Inr (Some [(''alpha'', 1), (''virus'', 1)]))"
  by code_simp

section \<open>Queries on degenerate tables\<close>

text \<open>
  Claim C10. The word analysis of a column of the cleaned table whose cells are all missing
  returns the empty table. And when the date parser recognises no publish date of the raw
  table, the counts by year of the cleaned table are the empty result.
\<close>

theorem degenerate_queries_empty:
  "(df_clean self = Some t \<and> column_name col \<in> set (columns t)
      \<and> (\<forall>r\<in>set (rows t). column_cell col r = None)
      \<longrightarrow> analyze_word_frequencies self col n = Inr (Some []))
   \<and> (df loaded_self = Some raw \<and> clean_data parse loaded_self = Inr self'
      \<and> (\<forall>r\<in>set (rows raw). to_datetime parse (publish_time r) = None)
      \<longrightarrow> analyze_publications_over_time self' = Inr (Some []))"
proof (intro conjI impI)
  assume a: "df_clean self = Some t \<and> column_name col \<in> set (columns t)
      \<and> (\<forall>r\<in>set (rows t). column_cell col r = None)"
  then have "dropna (map (column_cell col) (rows t)) = []"
    by (intro dropna_all_None) auto
  then show "analyze_word_frequencies self col n = Inr (Some [])"
    using a
    by (simp add: analyze_word_frequencies_def all_text_def words_of_def str_lower_def
        filtered_words_def Counter_def most_common_def sort_desc_def)
next
  assume a: "df loaded_self = Some raw \<and> clean_data parse loaded_self = Inr self'
      \<and> (\<forall>r\<in>set (rows raw). to_datetime parse (publish_time r) = None)"
  then obtain t where t: "df_clean self' = Some t"
    and c: "''publication_year'' \<in> set (columns t)"
    and r: "\<forall>r\<in>set (rows t). publication_year r = None"
    by (auto simp: clean_data_def Let_def set_add_column split: if_splits)
  have "dropna (map publication_year (rows t)) = []"
    using r by (intro dropna_all_None) auto
  then show "analyze_publications_over_time self' = Inr (Some [])"
    using t c by (simp add: analyze_publications_over_time_def value_counts_Nil sort_index_def)
qed

theorem degenerate_queries_empty_witness:
  "analyze_word_frequencies three_journals Source_x 20 = Inr (Some [])
   \<and> (\<exists>self'. clean_data no_date undated = Inr self'
         \<and> analyze_publications_over_time self' = Inr (Some []))"
proof -
  let ?t = "\<lparr>columns = cleaned_columns,
             rows = [cleaned_paper ''one'' ''Nature'' None None,
                     cleaned_paper ''two'' ''Science'' None None,
                     cleaned_paper ''three'' ''Cell'' None None]\<rparr>"
  let ?raw = "\<lparr>columns = recognised_columns,
               rows = [\<lparr>title = Some ''a title'', abstract = None, journal = None,
                        source_x = None, publish_time = Some ''not a date''\<rparr>]\<rparr>"
  have d: "df undated = Some ?raw"
    by (simp add: undated_def loaded_def)
  have "set [''title'', ''abstract'', ''publish_time'', ''journal''] \<subseteq> set (columns ?raw)"
    by (simp add: recognised_columns_def)
  moreover have "filter (\<lambda>r. title r \<noteq> None) (rows ?raw) \<noteq> []"
    by simp
  ultimately obtain self' where c: "clean_data no_date undated = Inr self'"
    using clean_data_succeeds [OF d] by blast
  have t: "df_clean three_journals = Some ?t"
    by (simp add: three_journals_def cleaned_def)
  have n: "column_name Source_x \<in> set (columns ?t)"
    by (simp add: cleaned_columns_def recognised_columns_def)
  have s: "\<forall>r\<in>set (rows ?t). column_cell Source_x r = None"
    by (simp add: cleaned_paper_def)
  have u: "\<forall>r\<in>set (rows ?raw). to_datetime no_date (publish_time r) = None"
    by (simp add: to_datetime_def no_date_def)
  have "analyze_word_frequencies three_journals Source_x 20 = Inr (Some [])"
    using degenerate_queries_empty [of three_journals ?t Source_x 20 undated ?raw no_date self']
      t n s by blast
  moreover have "analyze_publications_over_time self' = Inr (Some [])"
    using degenerate_queries_empty [of three_journals ?t Source_x 20 undated ?raw no_date self']
      d c u by blast
  ultimately show ?thesis
    using c by (intro conjI exI [of _ self']) simp_all
qed

section \<open>Facts about counting and ranking\<close>

lemma map_fst_count_add:
  "map fst (count_add w d) = (if w \<in> fst ` set d then map fst d else map fst d @ [w])"
  by (induction d) force+

lemma map_of_count_add:
  "map_of (count_add w d) k
     = (if k = w then Some (case map_of d w of None \<Rightarrow> 1 | Some c \<Rightarrow> Suc c) else map_of d k)"
  by (induction d) auto

lemma sum_list_count_add: "sum_list (map snd (count_add w d)) = Suc (sum_list (map snd d))"
  by (induction d) auto

lemma Counter_snoc: "Counter (ws @ [w]) = count_add w (Counter ws)"
  by (simp add: Counter_def)

lemma keys_Counter: "fst ` set (Counter ws) = set ws"
proof (induction ws rule: rev_induct)
  case Nil
  show ?case by (simp add: Counter_def)
next
  case (snoc w ws)
  have "fst ` set (Counter (ws @ [w])) = set (map fst (count_add w (Counter ws)))"
    by (simp add: Counter_snoc)
  also have "\<dots> = insert w (set ws)"
    using snoc by (auto simp: map_fst_count_add)
  finally show ?case by simp
qed

lemma distinct_Counter: "distinct (map fst (Counter ws))"
proof (induction ws rule: rev_induct)
  case Nil
  show ?case by (simp add: Counter_def)
next
  case (snoc w ws)
  then show ?case
    by (simp add: Counter_snoc map_fst_count_add)
qed

lemma map_of_Counter:
  "map_of (Counter ws) k = (if k \<in> set ws then Some (count_list ws k) else None)"
proof (induction ws rule: rev_induct)
  case Nil
  show ?case by (simp add: Counter_def)
next
  case (snoc w ws)
  show ?case
  proof (cases "k = w")
    case True
    then show ?thesis
      using snoc by (auto simp: Counter_snoc map_of_count_add count_list_0_iff)
  next
    case False
    then show ?thesis
      using snoc by (simp add: Counter_snoc map_of_count_add)
  qed
qed

lemma Counter_entry:
  assumes "(k, c) \<in> set (Counter ws)"
  shows "k \<in> set ws \<and> c = count_list ws k"
proof -
  have "map_of (Counter ws) k = Some c"
    using assms distinct_Counter [of ws] by simp
  then show ?thesis
    by (simp add: map_of_Counter split: if_splits)
qed

lemma sum_list_Counter: "sum_list (map snd (Counter ws)) = length ws"
  by (induction ws rule: rev_induct) (simp_all add: Counter_def sum_list_count_add)







lemma sum_list_insort_key:
  fixes f :: "'a \<Rightarrow> 'k :: linorder"
  shows "sum_list (map g (insort_key f x xs)) = (g x :: nat) + sum_list (map g xs)"
  by (induction xs) auto

lemma sum_list_sort_key:
  fixes f :: "'a \<Rightarrow> 'k :: linorder"
  shows "sum_list (map g (sort_key f xs)) = (sum_list (map g xs) :: nat)"
  by (induction xs) (simp_all add: sum_list_insort_key)

lemma distinct_map_sort_key:
  fixes f :: "'a \<Rightarrow> 'k :: linorder"
  shows "distinct (map g (sort_key f xs)) = distinct (map g xs)"
  by (simp add: distinct_map)

lemma set_value_counts: "set (value_counts xs) = set (Counter xs)"
  by (simp add: value_counts_def sort_desc_def)

lemma keys_value_counts: "fst ` set (value_counts xs) = set xs"
  by (simp add: set_value_counts keys_Counter)

lemma distinct_value_counts: "distinct (map fst (value_counts xs))"
  by (simp add: value_counts_def sort_desc_def distinct_map_sort_key distinct_Counter)

lemma value_counts_entry:
  "(k, c) \<in> set (value_counts xs) \<Longrightarrow> k \<in> set xs \<and> c = count_list xs k"
  by (simp add: set_value_counts Counter_entry)

lemma sum_list_value_counts: "sum_list (map snd (value_counts xs)) = length xs"
  by (simp add: value_counts_def sort_desc_def sum_list_sort_key sum_list_Counter)



lemma set_dropna: "set (dropna xs) = {x. Some x \<in> set xs}"
  by (induction xs rule: dropna.induct) auto

lemma length_dropna: "length (dropna xs) = length (filter (\<lambda>x. x \<noteq> None) xs)"
  by (induction xs rule: dropna.induct) auto

lemma count_list_dropna: "count_list (dropna xs) y = length (filter (\<lambda>x. x = Some y) xs)"
  by (induction xs rule: dropna.induct) auto

lemma count_list_filter: "count_list (filter P xs) y = (if P y then count_list xs y else 0)"
  by (induction xs) auto






section \<open>The counts by year\<close>

text \<open>
  Claim C8. On a cleaned table with the year column, the counts by year are returned; every
  entry is a year from 2019 to 2023 with the number of rows of that year, every such year of the
  table has an entry, the years ascend strictly, and the counts add up to at most the number of
  rows that have a year.
\<close>

theorem counts_by_year:
  assumes "df_clean self = Some t"
    and "''publication_year'' \<in> set (columns t)"
  shows "\<exists>res. analyze_publications_over_time self = Inr (Some res)
           \<and> (\<forall>(y, c)\<in>set res.
                 2019 \<le> y \<and> y \<le> 2023
                 \<and> c = length (filter (\<lambda>r. publication_year r = Some y) (rows t)))
           \<and> fst ` set res
               = {y. 2019 \<le> y \<and> y \<le> 2023 \<and> Some y \<in> publication_year ` set (rows t)}
           \<and> sorted (map fst res) \<and> distinct (map fst res)
           \<and> sum_list (map snd res)
               \<le> length (filter (\<lambda>r. publication_year r \<noteq> None) (rows t))"
proof -
  let ?years = "dropna (map publication_year (rows t))"
  let ?valid = "filter (\<lambda>y. y \<le> 2023) (filter (\<lambda>y. 2019 \<le> y) ?years)"
  let ?res = "sort_index (value_counts ?valid)"
  have res: "analyze_publications_over_time self = Inr (Some ?res)"
    using assms by (simp add: analyze_publications_over_time_def)
  have set_res: "set ?res = set (value_counts ?valid)"
    by (simp add: sort_index_def)
  have cnt: "\<forall>(y, c)\<in>set ?res.
                 2019 \<le> y \<and> y \<le> 2023
                 \<and> c = length (filter (\<lambda>r. publication_year r = Some y) (rows t))"
  proof (clarify)
    fix y c
    assume "(y, c) \<in> set ?res"
    then have "y \<in> set ?valid" and c: "c = count_list ?valid y"
      using value_counts_entry [of y c ?valid] set_res by auto
    then have y: "2019 \<le> y" "y \<le> 2023"
      by auto
    then have "c = count_list (dropna (map publication_year (rows t))) y"
      using c by (simp add: count_list_filter)
    also have "\<dots> = length (filter (\<lambda>r. publication_year r = Some y) (rows t))"
      by (simp add: count_list_dropna comp_def)
    finally show "2019 \<le> y \<and> y \<le> 2023
                 \<and> c = length (filter (\<lambda>r. publication_year r = Some y) (rows t))"
      using y by simp
  qed
  have "fst ` set ?res = fst ` set (value_counts ?valid)"
    by (simp only: set_res)
  also have "\<dots> = set ?valid"
    by (rule keys_value_counts)
  also have "\<dots> = {y. 2019 \<le> y \<and> y \<le> 2023 \<and> Some y \<in> publication_year ` set (rows t)}"
    by (auto simp: set_dropna)
  finally have keys: "fst ` set ?res
               = {y. 2019 \<le> y \<and> y \<le> 2023 \<and> Some y \<in> publication_year ` set (rows t)}" .
  have srt: "sorted (map fst ?res)"
    by (simp add: sort_index_def)
  have dst: "distinct (map fst ?res)"
    by (simp add: sort_index_def distinct_map_sort_key distinct_value_counts)
  have "sum_list (map snd ?res) = length ?valid"
    by (simp add: sort_index_def sum_list_sort_key sum_list_value_counts)
  also have "\<dots> \<le> length ?years"
    by (meson le_trans length_filter_le)
  also have "\<dots> = length (filter (\<lambda>r. publication_year r \<noteq> None) (rows t))"
    by (simp add: length_dropna comp_def)
  finally have sm: "sum_list (map snd ?res)
               \<le> length (filter (\<lambda>r. publication_year r \<noteq> None) (rows t))" .
  show ?thesis
    using res cnt keys srt dst sm by blast
qed

theorem counts_by_year_witness:
  "\<exists>res. analyze_publications_over_time six_years = Inr (Some res)
      \<and> res = [(2020, 2), (2021, 1)]
      \<and> sorted (map fst res) \<and> distinct (map fst res)
      \<and> sum_list (map snd res) \<le> 5"
proof -
  let ?t = "\<lparr>columns = cleaned_columns,
             rows = [cleaned_paper ''one'' ''Nature'' None (Some 2021),
                     cleaned_paper ''two'' ''Nature'' None (Some 2018),
                     cleaned_paper ''three'' ''Nature'' None None,
                     cleaned_paper ''four'' ''Nature'' None (Some 2020),
                     cleaned_paper ''five'' ''Nature'' None (Some 2024),
                     cleaned_paper ''six'' ''Nature'' None (Some 2020)]\<rparr>"
  have t: "df_clean six_years = Some ?t"
    by (simp add: six_years_def cleaned_def)
  have c: "''publication_year'' \<in> set (columns ?t)"
    by (simp add: cleaned_columns_def recognised_columns_def)
  obtain res where r: "analyze_publications_over_time six_years = Inr (Some res)"
    and s: "sorted (map fst res)" and d: "distinct (map fst res)"
    and m: "sum_list (map snd res)
              \<le> length (filter (\<lambda>r. publication_year r \<noteq> None) (rows ?t))"
    using counts_by_year [OF t c] by blast
  have "analyze_publications_over_time six_years = Inr (Some [(2020, 2), (2021, 1)])"
    by code_simp
  then have e: "res = [(2020, 2), (2021, 1)]"
    using r by simp
  have "length (filter (\<lambda>r. publication_year r \<noteq> None) (rows ?t)) = 5"
    by (simp add: cleaned_paper_def)
  then have "sum_list (map snd res) \<le> 5"
    using m by simp
  then show ?thesis
    using r e s d by (intro exI [of _ res]) simp
qed

section \<open>The top journals\<close>




section \<open>The words of the word analysis\<close>















end
